theory Spec2Isabelle
  imports Main
begin

section \<open>JavaScript values\<close>

text \<open>
  The controller is TypeScript running on Express. Request bodies, route parameters,
  \<open>res.locals\<close> and the objects \<open>UserService\<close> resolves to are JavaScript values;
  their TypeScript types are erased at run time and the declarations of most of them are
  not part of the sources, so they are modelled dynamically. Numbers are the integral
  ones; an object is the list of its own properties, the first entry of a name being
  the property.
\<close>

datatype jsval =
    JUndefined
  | JNull
  | JBool bool
  | JNum int
  | JStr string
  | JArr "jsval list"
  | JObj "(string \<times> jsval) list"

datatype error =
    TypeError
  | Rejected string

type_synonym 'a result = "error + 'a"

text \<open>
  \<open>nullish v\<close>: \<open>v\<close> is \<open>undefined\<close> or \<open>null\<close>. Reading a property of such a value,
  or destructuring it (\<open>const { id } = v\<close>), throws a \<open>TypeError\<close>.
\<close>

fun nullish :: "jsval \<Rightarrow> bool" where
  "nullish JUndefined = True"
| "nullish JNull = True"
| "nullish _ = False"

text \<open>
  \<open>get v k\<close> is \<open>v.k\<close> for a value that is not nullish. The controller reads only the
  names \<open>id\<close>, \<open>code\<close>, \<open>email\<close>, \<open>password\<close>, \<open>token\<close>, \<open>status\<close>, \<open>message\<close>,
  \<open>data\<close> and \<open>verified\<close>; none of them is a built-in property of a boolean, a number,
  a string or an array, so on those the read gives \<open>undefined\<close>.
\<close>

fun get :: "jsval \<Rightarrow> string \<Rightarrow> jsval" where
  "get (JObj kvs) k = (case map_of kvs k of None \<Rightarrow> JUndefined | Some v \<Rightarrow> v)"
| "get _ k = JUndefined"

definition property :: "jsval \<Rightarrow> string \<Rightarrow> jsval result" where
  "property v k = (if nullish v then Inl TypeError else Inr (get v k))"

text \<open>JavaScript truthiness, as \<open>!x\<close> and \<open>x ? a : b\<close> test it.\<close>

fun truthy :: "jsval \<Rightarrow> bool" where
  "truthy JUndefined = False"
| "truthy JNull = False"
| "truthy (JBool b) = b"
| "truthy (JNum n) = (n \<noteq> 0)"
| "truthy (JStr s) = (s \<noteq> [])"
| "truthy (JArr _) = True"
| "truthy (JObj _) = True"

text \<open>
  What a client parses from \<open>JSON.stringify v\<close>: a property whose value is \<open>undefined\<close>
  is left out of an object, an \<open>undefined\<close> array element becomes \<open>null\<close>.
\<close>

primrec JSON_stringify :: "jsval \<Rightarrow> jsval" where
  "JSON_stringify JUndefined = JUndefined"
| "JSON_stringify JNull = JNull"
| "JSON_stringify (JBool b) = JBool b"
| "JSON_stringify (JNum n) = JNum n"
| "JSON_stringify (JStr s) = JStr s"
| "JSON_stringify (JArr xs) =
     JArr (map (\<lambda>x. if x = JUndefined then JNull else x) (map JSON_stringify xs))"
| "JSON_stringify (JObj kvs) =
     JObj (filter (\<lambda>kv. snd kv \<noteq> JUndefined) (map (map_prod id JSON_stringify) kvs))"

text \<open>Sequencing of steps that may throw: the first error ends the handler.\<close>

definition andThen :: "'a result \<Rightarrow> ('a \<Rightarrow> 'b result) \<Rightarrow> 'b result" where
  "andThen r f = (case r of Inl e \<Rightarrow> Inl e | Inr x \<Rightarrow> f x)"

section \<open>Express request and response\<close>

record Request =
  params :: jsval
  body :: jsval

text \<open>
  The response object: \<open>locals\<close> is what earlier middleware left for the handler,
  \<open>statusCode\<close> starts at 200, \<open>sent\<close> is the JSON body once \<open>res.json\<close> has run.
\<close>

record Response =
  locals :: jsval
  statusCode :: nat
  sent :: "jsval option"

definition status :: "nat \<Rightarrow> Response \<Rightarrow> Response" where
  "status code res = res\<lparr>statusCode := code\<rparr>"

definition json :: "jsval \<Rightarrow> Response \<Rightarrow> Response" where
  "json obj res = res\<lparr>sent := Some (JSON_stringify obj)\<rparr>"

section \<open>The handlers of \<open>UserController\<close>\<close>

text \<open>
  \<open>UserService\<close> is imported from a module that is not part of the sources. Each handler
  takes the one service operation it awaits as its first argument: a function of the
  call's arguments and the state of the user store, which either rejects or resolves to
  a value together with the new state of the store.
\<close>

definition create ::
  "(jsval \<Rightarrow> 's \<Rightarrow> (jsval \<times> 's) result) \<Rightarrow> Request \<Rightarrow> Response \<Rightarrow> 's \<Rightarrow> (Response \<times> 's) result" where
  "create CreateUser req res st =
     andThen (CreateUser (body req) st) (\<lambda>(serviceResponse, st').
     andThen (property serviceResponse ''status'') (\<lambda>flag.
     let statusCode = (if truthy flag then 201 else 400) in
     andThen (property serviceResponse ''message'') (\<lambda>message.
     andThen (property serviceResponse ''data'') (\<lambda>data.
       Inr (json (JObj [(''message'', message), (''data'', data)]) (status statusCode res), st')))))"

definition getAllUsers ::
  "('s \<Rightarrow> (jsval \<times> 's) result) \<Rightarrow> Request \<Rightarrow> Response \<Rightarrow> 's \<Rightarrow> (Response \<times> 's) result" where
  "getAllUsers GetAllUsers req res st =
     andThen (GetAllUsers st) (\<lambda>(data, st').
       Inr (json (JObj [(''data'', data)]) (status 200 res), st'))"

definition getUserById ::
  "(jsval \<Rightarrow> 's \<Rightarrow> (jsval \<times> 's) result) \<Rightarrow> Request \<Rightarrow> Response \<Rightarrow> 's \<Rightarrow> (Response \<times> 's) result" where
  "getUserById GetUser req res st =
     andThen (property (params req) ''id'') (\<lambda>id.
     andThen (GetUser id st) (\<lambda>(user, st').
       Inr (json (JObj [(''data'', user)]) (status 200 res), st')))"

definition updateUser ::
  "(jsval \<Rightarrow> jsval \<Rightarrow> 's \<Rightarrow> (jsval \<times> 's) result) \<Rightarrow> Request \<Rightarrow> Response \<Rightarrow> 's \<Rightarrow> (Response \<times> 's) result" where
  "updateUser UpdateUser req res st =
     andThen (property (params req) ''id'') (\<lambda>id.
     andThen (UpdateUser id (body req) st) (\<lambda>(user, st').
       if \<not> truthy user
       then Inr (json (JObj [(''message'', JStr ''User not found'')]) (status 404 res), st')
       else Inr (json (JObj [(''data'', user)]) (status 200 res), st')))"

definition deleteUser ::
  "(jsval \<Rightarrow> 's \<Rightarrow> (jsval \<times> 's) result) \<Rightarrow> Request \<Rightarrow> Response \<Rightarrow> 's \<Rightarrow> (Response \<times> 's) result" where
  "deleteUser DeleteUser req res st =
     andThen (property (params req) ''id'') (\<lambda>id.
     andThen (DeleteUser id st) (\<lambda>(deleted, st').
       Inr (json (JObj [(''data'', deleted)]) (status 200 res), st')))"

definition login ::
  "(jsval \<Rightarrow> jsval \<Rightarrow> 's \<Rightarrow> (jsval \<times> 's) result) \<Rightarrow> Request \<Rightarrow> Response \<Rightarrow> 's \<Rightarrow> (Response \<times> 's) result" where
  "login service_login req res st =
     andThen (property (body req) ''email'') (\<lambda>email.
     andThen (property (body req) ''password'') (\<lambda>password.
     andThen (service_login email password st) (\<lambda>(serviceResponse, st').
     andThen (property serviceResponse ''status'') (\<lambda>flag.
       if \<not> truthy flag
       then andThen (property serviceResponse ''message'') (\<lambda>message.
              Inr (json (JObj [(''message'', message)]) (status 404 res), st'))
       else andThen (property serviceResponse ''message'') (\<lambda>message.
            andThen (property serviceResponse ''token'') (\<lambda>token.
              Inr (json (JObj [(''data'', JObj [(''message'', message), (''auth_token'', token)])])
                     (status 200 res), st')))))))"

definition requestVerification ::
  "(jsval \<Rightarrow> 's \<Rightarrow> (jsval \<times> 's) result) \<Rightarrow> Request \<Rightarrow> Response \<Rightarrow> 's \<Rightarrow> (Response \<times> 's) result" where
  "requestVerification requestVerificationCode req res st =
     andThen (property (locals res) ''token'') (\<lambda>token.
     andThen (property token ''id'') (\<lambda>id.
     andThen (requestVerificationCode id st) (\<lambda>(serviceResponse, st').
     andThen (property serviceResponse ''status'') (\<lambda>flag.
     let statusCode = (if truthy flag then 200 else 500) in
     andThen (property serviceResponse ''message'') (\<lambda>message.
       Inr (json (JObj [(''message'', message)]) (status statusCode res), st'))))))"

definition verifyUser ::
  "(jsval \<Rightarrow> jsval \<Rightarrow> 's \<Rightarrow> (jsval \<times> 's) result) \<Rightarrow> Request \<Rightarrow> Response \<Rightarrow> 's \<Rightarrow> (Response \<times> 's) result" where
  "verifyUser service_verifyUser req res st =
     andThen (property (locals res) ''token'') (\<lambda>token.
     andThen (property token ''id'') (\<lambda>id.
     andThen (property (body req) ''code'') (\<lambda>code.
     andThen (service_verifyUser id code st) (\<lambda>(serviceResponse, st').
     andThen (property serviceResponse ''verified'') (\<lambda>verified.
     let statusCode = (if truthy verified then 200 else 500) in
     andThen (property serviceResponse ''message'') (\<lambda>message.
       Inr (json (JObj [(''message'', message)]) (status statusCode res), st')))))))"


section \<open>The routes registered by \<open>initRoutes\<close>\<close>

datatype http_method = GET | POST | PUT | DELETE

datatype schema = UserSchemas_create | UserSchemas_login

datatype handler =
    this_create
  | this_login
  | this_requestVerification
  | this_getAllUsers
  | this_getUserById
  | this_verifyUser
  | this_updateUser
  | this_deleteUser

text \<open>
  The callbacks a route is registered with, in the order Express runs them:
  middleware first, the handler (wrapped in \<open>catchAsyncError\<close>) last.
\<close>

datatype callback =
    validationMiddleware schema
  | jwtTokenRequiringMiddleware
  | catchAsyncError handler

record Route =
  verb :: http_method
  path :: string
  callbacks :: "callback list"

type_synonym Router = "Route list"

definition register :: "http_method \<Rightarrow> string \<Rightarrow> callback list \<Rightarrow> Router \<Rightarrow> Router" where
  "register m p cs router = router @ [\<lparr>verb = m, path = p, callbacks = cs\<rparr>]"

definition controller_path :: string where
  "controller_path = ''/users''"

definition initRoutes :: "Router \<Rightarrow> Router" where
  "initRoutes router =
     (register DELETE (controller_path @ ''/:id'')
        [jwtTokenRequiringMiddleware, catchAsyncError this_deleteUser]
     (register PUT (controller_path @ ''/:id'')
        [jwtTokenRequiringMiddleware, catchAsyncError this_updateUser]
     (register PUT (controller_path @ ''/verify-user'')
        [jwtTokenRequiringMiddleware, catchAsyncError this_verifyUser]
     (register GET (controller_path @ ''/:id'')
        [jwtTokenRequiringMiddleware, catchAsyncError this_getUserById]
     (register GET controller_path
        [jwtTokenRequiringMiddleware, catchAsyncError this_getAllUsers]
     (register POST (controller_path @ ''/request-verification-code'')
        [jwtTokenRequiringMiddleware, catchAsyncError this_requestVerification]
     (register POST (controller_path @ ''/login'')
        [validationMiddleware UserSchemas_login, catchAsyncError this_login]
     (register POST (controller_path @ ''/register'')
        [validationMiddleware UserSchemas_create, catchAsyncError this_create]
      router))))))))"

text \<open>The constructor: a fresh router, then \<open>initRoutes\<close>.\<close>

definition UserController_router :: Router where
  "UserController_router = initRoutes []"

fun is_handler :: "callback \<Rightarrow> bool" where
  "is_handler (catchAsyncError _) = True"
| "is_handler _ = False"

text \<open>The callbacks that run before a route's handler.\<close>

definition before_handler :: "Route \<Rightarrow> callback list" where
  "before_handler r = takeWhile (\<lambda>c. \<not> is_handler c) (callbacks r)"

definition requires_token :: "Route \<Rightarrow> bool" where
  "requires_token r =
     (jwtTokenRequiringMiddleware \<in> set (before_handler r) \<and>
      before_handler r \<noteq> callbacks r)"


section \<open>The identity the token middleware attaches\<close>

text \<open>
  \<open>const { id } = res.locals.token\<close>, the first statement of \<open>requestVerification\<close> and of
  \<open>verifyUser\<close>: the id of the token that \<open>jwtTokenRequiringMiddleware\<close> stored in
  \<open>res.locals\<close>, or the \<open>TypeError\<close> of destructuring a missing token.
\<close>

definition token_id :: "Response \<Rightarrow> jsval result" where
  "token_id res = andThen (property (locals res) ''token'') (\<lambda>token. property token ''id'')"


section \<open>The \<open>User\<close> document\<close>

text \<open>
  The interface \<open>User\<close>, field by field as it is declared.
\<close>

record User =
  firstName :: string
  lastName :: string
  email :: string
  password :: string
  isVerified :: bool
  verificationCode :: string

fun as_string :: "jsval \<Rightarrow> string option" where
  "as_string (JStr s) = Some s"
| "as_string _ = None"

section \<open>The account service, from the specification\<close>

text \<open>
  The module \<open>@/services/user.service\<close> is not part of the sources. Where a property
  depends on what the service does to the store, the operations below stand for it.
  The store maps the identifier of an account to the account.
\<close>

type_synonym UserStore = "(string \<times> User) list"

text \<open>
  Modelled from the spec: the outward-facing payload of an account, which is missing
  from the sources (``password field excluded from any outward-facing payload'').
\<close>

definition account_json :: "string \<Rightarrow> User \<Rightarrow> jsval" where
  "account_json i u =
     JObj [(''id'', JStr i),
           (''firstName'', JStr (firstName u)),
           (''lastName'', JStr (lastName u)),
           (''email'', JStr (email u)),
           (''isVerified'', JBool (isVerified u)),
           (''verificationCode'', JStr (verificationCode u))]"

text \<open>
  Modelled from the spec: \<open>UserService.CreateUser\<close>, which is missing from the sources.
  ``Input: first/last name, email, plaintext password. Result: newly created UserAccount
  record (password field excluded from any outward-facing payload) plus a success flag.
  Fails (signals "creation failed", status=false) on duplicate email or store-level
  rejection; does not throw for expected conflicts. Side effect: password is one-way
  hashed before persistence; the account starts unverified.'' The hash and the
  identifier the store assigns are parameters; a body that is not registration data and
  an identifier already in use are store-level rejections.
\<close>

definition email_taken :: "jsval \<Rightarrow> UserStore \<Rightarrow> bool" where
  "email_taken registrationData st =
     (\<exists>u \<in> set (map snd st). JStr (email u) = get registrationData ''email'')"

definition creation_failed :: jsval where
  "creation_failed = JObj [(''status'', JBool False), (''message'', JStr ''creation failed'')]"

definition CreateUser_spec ::
  "(string \<Rightarrow> string) \<Rightarrow> (UserStore \<Rightarrow> string) \<Rightarrow> jsval \<Rightarrow> UserStore \<Rightarrow> (jsval \<times> UserStore) result" where
  "CreateUser_spec hash newId registrationData st =
     (case (as_string (get registrationData ''firstName''),
            as_string (get registrationData ''lastName''),
            as_string (get registrationData ''email''),
            as_string (get registrationData ''password'')) of
        (Some f, Some l, Some e, Some p) \<Rightarrow>
          if email_taken registrationData st \<or> newId st \<in> set (map fst st)
          then Inr (creation_failed, st)
          else
            let u = \<lparr>firstName = f, lastName = l, email = e, password = hash p,
                     isVerified = False, verificationCode = []\<rparr>
            in Inr (JObj [(''status'', JBool True), (''message'', JStr ''created''),
                          (''data'', account_json (newId st) u)],
                    st @ [(newId st, u)])
      | _ \<Rightarrow> Inr (creation_failed, st))"

text \<open>
  Modelled from the spec: \<open>UserService.DeleteUser\<close>, which is missing from the sources.
  ``Removes the account; returns the deleted record (or an indication nothing existed).''
  The indication is \<open>null\<close>.
\<close>

definition DeleteUser_spec :: "jsval \<Rightarrow> UserStore \<Rightarrow> (jsval \<times> UserStore) result" where
  "DeleteUser_spec userId st =
     (case as_string userId of
        None \<Rightarrow> Inr (JNull, st)
      | Some i \<Rightarrow>
          (case map_of st i of
             None \<Rightarrow> Inr (JNull, st)
           | Some u \<Rightarrow> Inr (account_json i u, filter (\<lambda>(k, a). k \<noteq> i) st)))"







section \<open>Properties\<close>

subsection \<open>The handlers, step by step\<close>

text \<open>
  Each handler written out as one case distinction: where it throws, and the response and
  store it returns otherwise.
\<close>

lemma requestVerification_unfold:
  "requestVerification svc req res st =
     (case token_id res of Inl e \<Rightarrow> Inl e | Inr i \<Rightarrow>
       (case svc i st of Inl e \<Rightarrow> Inl e | Inr (r, st') \<Rightarrow>
         if nullish r then Inl TypeError
         else Inr (res\<lparr>statusCode := (if truthy (get r ''status'') then 200 else 500),
                       sent := Some (JSON_stringify (JObj [(''message'', get r ''message'')]))\<rparr>, st')))"
  by (simp add: requestVerification_def token_id_def andThen_def property_def json_def status_def
      split: sum.splits prod.splits)

lemma verifyUser_unfold:
  "verifyUser svc req res st =
     (case token_id res of Inl e \<Rightarrow> Inl e | Inr i \<Rightarrow>
       (case property (body req) ''code'' of Inl e \<Rightarrow> Inl e | Inr c \<Rightarrow>
       (case svc i c st of Inl e \<Rightarrow> Inl e | Inr (r, st') \<Rightarrow>
         if nullish r then Inl TypeError
         else Inr (res\<lparr>statusCode := (if truthy (get r ''verified'') then 200 else 500),
                       sent := Some (JSON_stringify (JObj [(''message'', get r ''message'')]))\<rparr>, st'))))"
  by (simp add: verifyUser_def token_id_def andThen_def property_def json_def status_def
      split: sum.splits prod.splits)

lemma login_unfold:
  "login svc req res st =
     (if nullish (body req) then Inl TypeError else
       (case svc (get (body req) ''email'') (get (body req) ''password'') st of
          Inl e \<Rightarrow> Inl e
        | Inr (r, st') \<Rightarrow>
            if nullish r then Inl TypeError
            else if \<not> truthy (get r ''status'')
            then Inr (res\<lparr>statusCode := 404,
                          sent := Some (JSON_stringify (JObj [(''message'', get r ''message'')]))\<rparr>, st')
            else Inr (res\<lparr>statusCode := 200,
                          sent := Some (JSON_stringify (JObj [(''data'',
                            JObj [(''message'', get r ''message''), (''auth_token'', get r ''token'')])]))\<rparr>, st')))"
  by (simp add: login_def andThen_def property_def json_def status_def
      split: sum.splits prod.splits)

lemma create_unfold:
  "create svc req res st =
     (case svc (body req) st of
        Inl e \<Rightarrow> Inl e
      | Inr (r, st') \<Rightarrow>
          if nullish r then Inl TypeError
          else Inr (res\<lparr>statusCode := (if truthy (get r ''status'') then 201 else 400),
                        sent := Some (JSON_stringify
                          (JObj [(''message'', get r ''message''), (''data'', get r ''data'')]))\<rparr>, st'))"
  by (simp add: create_def andThen_def property_def json_def status_def
      split: sum.splits prod.splits)

lemma getUserById_unfold:
  "getUserById svc req res st =
     (if nullish (params req) then Inl TypeError else
       (case svc (get (params req) ''id'') st of
          Inl e \<Rightarrow> Inl e
        | Inr (user, st') \<Rightarrow>
            Inr (res\<lparr>statusCode := 200,
                     sent := Some (JSON_stringify (JObj [(''data'', user)]))\<rparr>, st')))"
  by (simp add: getUserById_def andThen_def property_def json_def status_def
      split: sum.splits prod.splits)

lemma deleteUser_unfold:
  "deleteUser svc req res st =
     (if nullish (params req) then Inl TypeError else
       (case svc (get (params req) ''id'') st of
          Inl e \<Rightarrow> Inl e
        | Inr (deleted, st') \<Rightarrow>
            Inr (res\<lparr>statusCode := 200,
                     sent := Some (JSON_stringify (JObj [(''data'', deleted)]))\<rparr>, st')))"
  by (simp add: deleteUser_def andThen_def property_def json_def status_def
      split: sum.splits prod.splits)

lemma updateUser_unfold:
  "updateUser svc req res st =
     (if nullish (params req) then Inl TypeError else
       (case svc (get (params req) ''id'') (body req) st of
          Inl e \<Rightarrow> Inl e
        | Inr (user, st') \<Rightarrow>
            if \<not> truthy user
            then Inr (res\<lparr>statusCode := 404,
                     sent := Some (JObj [(''message'', JStr ''User not found'')])\<rparr>, st')
            else Inr (res\<lparr>statusCode := 200,
                     sent := Some (JSON_stringify (JObj [(''data'', user)]))\<rparr>, st')))"
  by (simp add: updateUser_def andThen_def property_def json_def status_def
      split: sum.splits prod.splits)

lemma UserController_router_eq:
  "UserController_router =
    [\<lparr>verb = POST, path = ''/users/register'',
        callbacks = [validationMiddleware UserSchemas_create, catchAsyncError this_create]\<rparr>,
     \<lparr>verb = POST, path = ''/users/login'',
        callbacks = [validationMiddleware UserSchemas_login, catchAsyncError this_login]\<rparr>,
     \<lparr>verb = POST, path = ''/users/request-verification-code'',
        callbacks = [jwtTokenRequiringMiddleware, catchAsyncError this_requestVerification]\<rparr>,
     \<lparr>verb = GET, path = ''/users'',
        callbacks = [jwtTokenRequiringMiddleware, catchAsyncError this_getAllUsers]\<rparr>,
     \<lparr>verb = GET, path = ''/users/:id'',
        callbacks = [jwtTokenRequiringMiddleware, catchAsyncError this_getUserById]\<rparr>,
     \<lparr>verb = PUT, path = ''/users/verify-user'',
        callbacks = [jwtTokenRequiringMiddleware, catchAsyncError this_verifyUser]\<rparr>,
     \<lparr>verb = PUT, path = ''/users/:id'',
        callbacks = [jwtTokenRequiringMiddleware, catchAsyncError this_updateUser]\<rparr>,
     \<lparr>verb = DELETE, path = ''/users/:id'',
        callbacks = [jwtTokenRequiringMiddleware, catchAsyncError this_deleteUser]\<rparr>]"
  by (simp add: UserController_router_def initRoutes_def register_def controller_path_def)

subsection \<open>Identity comes from the token\<close>

text \<open>
  Claim C1. In \<open>requestVerification\<close> and \<open>verifyUser\<close> the identifier handed to the service
  is the one resolved from the token in \<open>res.locals\<close>, never one from the request. When the
  token resolves to \<open>i\<close>, the handler behaves, for every service, exactly as it does with a
  service that ignores the identifier it is given and acts on \<open>i\<close>; and the request may be
  replaced by any other request (for \<open>verifyUser\<close>: any other request that submits the same
  code), so no field of the body decides which account is acted on. When the token does
  not resolve, the handler throws before any service is called.
\<close>

theorem identity_from_token_only:
  "(case token_id res of
      Inl e \<Rightarrow>
        requestVerification svc req res st = Inl e \<and> verifyUser svc' req res st = Inl e
    | Inr i \<Rightarrow>
        requestVerification svc req res st = requestVerification (\<lambda>_. svc i) req' res st \<and>
        (property (body req) ''code'' = property (body req') ''code'' \<longrightarrow>
           verifyUser svc' req res st = verifyUser (\<lambda>_. svc' i) req' res st))"
  by (simp add: requestVerification_unfold verifyUser_unfold split: sum.splits)

theorem identity_from_token_only_witness:
  "requestVerification
     (\<lambda>i st. Inr (JObj [(''status'', JBool True), (''message'', i)], st))
     \<lparr>params = JObj [], body = JObj [(''id'', JStr ''u2''), (''code'', JStr ''1234'')]\<rparr>
     \<lparr>locals = JObj [(''token'', JObj [(''id'', JStr ''u1'')])], statusCode = 200, sent = None\<rparr>
     ()
   = requestVerification
     (\<lambda>_ st. Inr (JObj [(''status'', JBool True), (''message'', JStr ''u1'')], st))
     \<lparr>params = JObj [], body = JObj [(''code'', JStr ''1234'')]\<rparr>
     \<lparr>locals = JObj [(''token'', JObj [(''id'', JStr ''u1'')])], statusCode = 200, sent = None\<rparr>
     () \<and>
   verifyUser
     (\<lambda>i c st. Inr (JObj [(''verified'', JBool True), (''message'', i)], st))
     \<lparr>params = JObj [], body = JObj [(''id'', JStr ''u2''), (''code'', JStr ''1234'')]\<rparr>
     \<lparr>locals = JObj [(''token'', JObj [(''id'', JStr ''u1'')])], statusCode = 200, sent = None\<rparr>
     ()
   = verifyUser
     (\<lambda>_ c st. Inr (JObj [(''verified'', JBool True), (''message'', JStr ''u1'')], st))
     \<lparr>params = JObj [], body = JObj [(''code'', JStr ''1234'')]\<rparr>
     \<lparr>locals = JObj [(''token'', JObj [(''id'', JStr ''u1'')])], statusCode = 200, sent = None\<rparr>
     () \<and>
   requestVerification
     (\<lambda>i st. Inr (JObj [(''status'', JBool True), (''message'', i)], st))
     \<lparr>params = JObj [], body = JObj [(''id'', JStr ''u2''), (''code'', JStr ''1234'')]\<rparr>
     \<lparr>locals = JObj [(''token'', JObj [(''id'', JStr ''u1'')])], statusCode = 200, sent = None\<rparr>
     ()
   = Inr (\<lparr>locals = JObj [(''token'', JObj [(''id'', JStr ''u1'')])], statusCode = 200,
            sent = Some (JObj [(''message'', JStr ''u1'')])\<rparr>, ())"
  using identity_from_token_only
    [where res = "\<lparr>locals = JObj [(''token'', JObj [(''id'', JStr ''u1'')])], statusCode = 200, sent = None\<rparr>"
       and req = "\<lparr>params = JObj [], body = JObj [(''id'', JStr ''u2''), (''code'', JStr ''1234'')]\<rparr>"
       and req' = "\<lparr>params = JObj [], body = JObj [(''code'', JStr ''1234'')]\<rparr>"
       and svc = "\<lambda>i st. Inr (JObj [(''status'', JBool True), (''message'', i)], st)"
       and svc' = "\<lambda>i c st. Inr (JObj [(''verified'', JBool True), (''message'', i)], st)"
       and st = "()"]
  by (simp add: token_id_def andThen_def property_def requestVerification_unfold)

subsection \<open>Which routes require a token\<close>

text \<open>
  Claim C2. The controller registers eight routes. On every one of them except
  \<open>POST /users/register\<close> and \<open>POST /users/login\<close> the callback
  \<open>jwtTokenRequiringMiddleware\<close> stands before the handler; those two routes do not have
  it among their callbacks at all.
\<close>

theorem initRoutes_token_gate:
  "(\<forall>r \<in> set UserController_router.
      if verb r = POST \<and> (path r = ''/users/register'' \<or> path r = ''/users/login'')
      then jwtTokenRequiringMiddleware \<notin> set (callbacks r)
      else requires_token r) \<and>
   map (\<lambda>r. (verb r, path r)) UserController_router =
     [(POST, ''/users/register''), (POST, ''/users/login''),
      (POST, ''/users/request-verification-code''), (GET, ''/users''),
      (GET, ''/users/:id''), (PUT, ''/users/verify-user''),
      (PUT, ''/users/:id''), (DELETE, ''/users/:id'')]"
  unfolding UserController_router_eq
  by (simp add: requires_token_def before_handler_def)

theorem initRoutes_token_gate_witness:
  "requires_token
     \<lparr>verb = PUT, path = ''/users/verify-user'',
      callbacks = [jwtTokenRequiringMiddleware, catchAsyncError this_verifyUser]\<rparr> \<and>
   jwtTokenRequiringMiddleware \<notin> set (callbacks
     \<lparr>verb = POST, path = ''/users/login'',
      callbacks = [validationMiddleware UserSchemas_login, catchAsyncError this_login]\<rparr>)"
  using initRoutes_token_gate unfolding UserController_router_eq
  by simp

subsection \<open>Status codes of the verification handlers\<close>

text \<open>
  Claim C3. For every value the service resolves to, \<open>requestVerification\<close> responds with
  status 200 when the result's \<open>status\<close> flag is true and with 500 when it is false, and
  \<open>verifyUser\<close> responds with 200 when the result's \<open>verified\<close> flag is true and with 500
  when it is false. (The flag is tested for truthiness, so the same holds of a flag that
  is not a boolean.)
\<close>

theorem verification_status_codes:
  assumes "token_id res = Inr i" and "\<not> nullish r"
  shows "(svc i st = Inr (r, st') \<longrightarrow>
            (\<exists>res'. requestVerification svc req res st = Inr (res', st') \<and>
                    statusCode res' = (if truthy (get r ''status'') then 200 else 500))) \<and>
         (property (body req) ''code'' = Inr c \<and> svc' i c st = Inr (r, st') \<longrightarrow>
            (\<exists>res'. verifyUser svc' req res st = Inr (res', st') \<and>
                    statusCode res' = (if truthy (get r ''verified'') then 200 else 500)))"
  using assms by (simp add: requestVerification_unfold verifyUser_unfold)

theorem verification_status_codes_witness:
  "(\<exists>res'. requestVerification
       (\<lambda>i st. Inr (JObj [(''status'', JBool False), (''message'', JStr ''failed'')], st))
       \<lparr>params = JObj [], body = JUndefined\<rparr>
       \<lparr>locals = JObj [(''token'', JObj [(''id'', JStr ''u1'')])], statusCode = 200, sent = None\<rparr>
       () = Inr (res', ()) \<and> statusCode res' = 500) \<and>
   (\<exists>res'. verifyUser
       (\<lambda>i c st. Inr (JObj [(''verified'', JBool True), (''message'', JStr ''verified'')], st))
       \<lparr>params = JObj [], body = JObj [(''code'', JStr ''0000'')]\<rparr>
       \<lparr>locals = JObj [(''token'', JObj [(''id'', JStr ''u1'')])], statusCode = 200, sent = None\<rparr>
       () = Inr (res', ()) \<and> statusCode res' = 200)"
  using
    verification_status_codes
      [where res = "\<lparr>locals = JObj [(''token'', JObj [(''id'', JStr ''u1'')])], statusCode = 200, sent = None\<rparr>"
         and i = "JStr ''u1''"
         and r = "JObj [(''status'', JBool False), (''message'', JStr ''failed'')]"
         and svc = "\<lambda>i st. Inr (JObj [(''status'', JBool False), (''message'', JStr ''failed'')], st)"
         and st = "()" and st' = "()"
         and req = "\<lparr>params = JObj [], body = JUndefined\<rparr>"]
    verification_status_codes
      [where res = "\<lparr>locals = JObj [(''token'', JObj [(''id'', JStr ''u1'')])], statusCode = 200, sent = None\<rparr>"
         and i = "JStr ''u1''"
         and r = "JObj [(''verified'', JBool True), (''message'', JStr ''verified'')]"
         and svc' = "\<lambda>i c st. Inr (JObj [(''verified'', JBool True), (''message'', JStr ''verified'')], st)"
         and st = "()" and st' = "()" and c = "JStr ''0000''"
         and req = "\<lparr>params = JObj [], body = JObj [(''code'', JStr ''0000'')]\<rparr>"]
  by (simp add: token_id_def andThen_def property_def)

subsection \<open>The verification code of a stored account\<close>




subsection \<open>Login responses\<close>

text \<open>
  Claim C6. For every login request whose body reaches the handler, and every result the
  service resolves to: when the result's \<open>status\<close> is false the handler responds with
  status 404 and the body \<open>{message}\<close>, which has no token whatever else the result
  holds; when it is true the handler responds with status 200 and the body
  \<open>{data: {message, auth_token}}\<close>, \<open>auth_token\<close> being the result's token.
\<close>

theorem login_responses:
  assumes "\<not> nullish (body req)"
    and "svc (get (body req) ''email'') (get (body req) ''password'') st = Inr (r, st')"
    and "\<not> nullish r"
    and "get r ''message'' = JStr m"
  shows "(\<not> truthy (get r ''status'') \<longrightarrow>
            login svc req res st =
              Inr (res\<lparr>statusCode := 404, sent := Some (JObj [(''message'', JStr m)])\<rparr>, st')) \<and>
         (truthy (get r ''status'') \<and> get r ''token'' = JStr t \<longrightarrow>
            login svc req res st =
              Inr (res\<lparr>statusCode := 200,
                       sent := Some (JObj [(''data'',
                         JObj [(''message'', JStr m), (''auth_token'', JStr t)])])\<rparr>, st'))"
  using assms by (simp add: login_unfold)

theorem login_responses_witness:
  "login
     (\<lambda>e p st. Inr (JObj [(''status'', JBool False), (''message'', JStr ''Invalid credentials''),
                           (''token'', JStr ''ignored'')], st))
     \<lparr>params = JObj [], body = JObj [(''email'', JStr ''a@x.com''), (''password'', JStr ''pw123'')]\<rparr>
     \<lparr>locals = JObj [], statusCode = 200, sent = None\<rparr> ()
   = Inr (\<lparr>locals = JObj [], statusCode = 404,
            sent = Some (JObj [(''message'', JStr ''Invalid credentials'')])\<rparr>, ()) \<and>
   login
     (\<lambda>e p st. Inr (JObj [(''status'', JBool True), (''message'', JStr ''Logged in''),
                           (''token'', JStr ''T'')], st))
     \<lparr>params = JObj [], body = JObj [(''email'', JStr ''a@x.com''), (''password'', JStr ''pw123'')]\<rparr>
     \<lparr>locals = JObj [], statusCode = 200, sent = None\<rparr> ()
   = Inr (\<lparr>locals = JObj [], statusCode = 200,
            sent = Some (JObj [(''data'',
              JObj [(''message'', JStr ''Logged in''), (''auth_token'', JStr ''T'')])])\<rparr>, ())"
  using
    login_responses
      [where req = "\<lparr>params = JObj [], body = JObj [(''email'', JStr ''a@x.com''), (''password'', JStr ''pw123'')]\<rparr>"
         and svc = "\<lambda>e p st. Inr (JObj [(''status'', JBool False), (''message'', JStr ''Invalid credentials''),
                                         (''token'', JStr ''ignored'')], st)"
         and r = "JObj [(''status'', JBool False), (''message'', JStr ''Invalid credentials''),
                        (''token'', JStr ''ignored'')]"
         and m = "''Invalid credentials''" and st = "()" and st' = "()"
         and res = "\<lparr>locals = JObj [], statusCode = 200, sent = None\<rparr>"]
    login_responses
      [where req = "\<lparr>params = JObj [], body = JObj [(''email'', JStr ''a@x.com''), (''password'', JStr ''pw123'')]\<rparr>"
         and svc = "\<lambda>e p st. Inr (JObj [(''status'', JBool True), (''message'', JStr ''Logged in''),
                                         (''token'', JStr ''T'')], st)"
         and r = "JObj [(''status'', JBool True), (''message'', JStr ''Logged in''), (''token'', JStr ''T'')]"
         and m = "''Logged in''" and t = "''T''" and st = "()" and st' = "()"
         and res = "\<lparr>locals = JObj [], statusCode = 200, sent = None\<rparr>"]
  by simp

subsection \<open>What the verification-code request sends back\<close>




subsection \<open>Looking up an account that does not exist\<close>

text \<open>
  Claim C8 does not hold of \<open>getUserById\<close>. Whatever \<open>GetUser\<close> resolves to, the handler
  responds with status 200 and the body \<open>{data: user}\<close>: for an identifier with no record
  (the service resolving to \<open>null\<close>) that is the success status with \<open>data: null\<close>.
  \<open>updateUser\<close>, given the same falsy value by its service, responds with status 404 and
  the message \<open>User not found\<close>.
\<close>

theorem getUserById_reports_200:
  assumes "\<not> nullish (params req)" and "svc (get (params req) ''id'') st = Inr (user, st')"
  shows "getUserById svc req res st =
           Inr (res\<lparr>statusCode := 200,
                    sent := Some (JSON_stringify (JObj [(''data'', user)]))\<rparr>, st') \<and>
         (\<not> truthy user \<longrightarrow>
            updateUser (\<lambda>id patch. svc id) req res st =
              Inr (res\<lparr>statusCode := 404,
                       sent := Some (JObj [(''message'', JStr ''User not found'')])\<rparr>, st'))"
  using assms by (simp add: getUserById_unfold updateUser_unfold)

theorem getUserById_reports_200_witness:
  "getUserById (\<lambda>id st. Inr (JNull, st))
     \<lparr>params = JObj [(''id'', JStr ''u9'')], body = JUndefined\<rparr> \<lparr>locals = JObj [(''token'', JObj [(''id'', JStr ''u1'')])], statusCode = 200, sent = None\<rparr> ()
   = Inr (\<lparr>locals = JObj [(''token'', JObj [(''id'', JStr ''u1'')])], statusCode = 200,
            sent = Some (JObj [(''data'', JNull)])\<rparr>, ()) \<and>
   updateUser (\<lambda>id patch st. Inr (JNull, st))
     \<lparr>params = JObj [(''id'', JStr ''u9'')], body = JUndefined\<rparr> \<lparr>locals = JObj [(''token'', JObj [(''id'', JStr ''u1'')])], statusCode = 200, sent = None\<rparr> ()
   = Inr (\<lparr>locals = JObj [(''token'', JObj [(''id'', JStr ''u1'')])], statusCode = 404,
            sent = Some (JObj [(''message'', JStr ''User not found'')])\<rparr>, ())"
  using getUserById_reports_200
    [where req = "\<lparr>params = JObj [(''id'', JStr ''u9'')], body = JUndefined\<rparr>"
       and svc = "\<lambda>id st. Inr (JNull, st)" and st = "()" and st' = "()" and user = JNull
       and res = "\<lparr>locals = JObj [(''token'', JObj [(''id'', JStr ''u1'')])], statusCode = 200, sent = None\<rparr>"]
  by simp

subsection \<open>Registration\<close>

lemma CreateUser_spec_cases:
  "CreateUser_spec hash newId b st = Inr (creation_failed, st) \<or>
   (\<not> email_taken b st \<and>
    (\<exists>m d u. CreateUser_spec hash newId b st =
       Inr (JObj [(''status'', JBool True), (''message'', m), (''data'', d)],
            st @ [(newId st, u)])))"
  by (auto simp add: CreateUser_spec_def Let_def split: option.splits)

text \<open>
  Claim C7, the service being the one the specification describes. For every registration
  request \<open>CreateUser\<close> resolves, it never rejects, and its result carries a boolean
  \<open>status\<close>; when the email is already in use that flag is false and the store is left as
  it was. The handler \<open>create\<close> then responds with status 201 exactly when the flag is
  true and with 400 exactly when it is false. The handler does so for every service:
  whatever object a service resolves to, the status is 201 when its \<open>status\<close> is true and
  400 when it is false.
\<close>

theorem create_status_flag:
  "(\<exists>r st' b res'.
      CreateUser_spec hash newId (body req) st = Inr (r, st') \<and>
      get r ''status'' = JBool b \<and>
      (email_taken (body req) st \<longrightarrow> \<not> b \<and> st' = st) \<and>
      create (CreateUser_spec hash newId) req res st = Inr (res', st') \<and>
      (statusCode res' = 201) = b \<and> (statusCode res' = 400) = (\<not> b)) \<and>
   (svc (body req) st0 = Inr (r0, st0') \<and> \<not> nullish r0 \<longrightarrow>
      (\<exists>res'. create svc req res st0 = Inr (res', st0') \<and>
         (statusCode res' = 201) = truthy (get r0 ''status'') \<and>
         (statusCode res' = 400) = (\<not> truthy (get r0 ''status''))))"
proof (rule conjI)
  show "\<exists>r st' b res'.
      CreateUser_spec hash newId (body req) st = Inr (r, st') \<and>
      get r ''status'' = JBool b \<and>
      (email_taken (body req) st \<longrightarrow> \<not> b \<and> st' = st) \<and>
      create (CreateUser_spec hash newId) req res st = Inr (res', st') \<and>
      (statusCode res' = 201) = b \<and> (statusCode res' = 400) = (\<not> b)"
    using CreateUser_spec_cases [of hash newId "body req" st]
    by (auto simp add: create_unfold creation_failed_def)
next
  show "svc (body req) st0 = Inr (r0, st0') \<and> \<not> nullish r0 \<longrightarrow>
      (\<exists>res'. create svc req res st0 = Inr (res', st0') \<and>
         (statusCode res' = 201) = truthy (get r0 ''status'') \<and>
         (statusCode res' = 400) = (\<not> truthy (get r0 ''status'')))"
    by (simp add: create_unfold)
qed

theorem create_status_flag_witness:
  "(\<exists>res'.
      create (CreateUser_spec rev (\<lambda>st. ''u2''))
        \<lparr>params = JObj [],
         body = JObj [(''firstName'', JStr ''Eve''), (''lastName'', JStr ''Moneypenny''),
                      (''email'', JStr ''a@x.com''), (''password'', JStr ''pw123'')]\<rparr>
        \<lparr>locals = JObj [], statusCode = 200, sent = None\<rparr>
        [(''u1'', \<lparr>firstName = ''Ada'', lastName = ''Lovelace'', email = ''a@x.com'',
                   password = ''h'', isVerified = False, verificationCode = []\<rparr>)]
      = Inr (res',
          [(''u1'', \<lparr>firstName = ''Ada'', lastName = ''Lovelace'', email = ''a@x.com'',
                     password = ''h'', isVerified = False, verificationCode = []\<rparr>)]) \<and>
      statusCode res' = 400) \<and>
   (\<exists>res'.
      create (\<lambda>b st. Inr (JObj [(''status'', JBool True), (''message'', JStr ''created'')], st))
        \<lparr>params = JObj [], body = JObj []\<rparr>
        \<lparr>locals = JObj [], statusCode = 200, sent = None\<rparr> ()
      = Inr (res', ()) \<and> statusCode res' = 201)"
  using create_status_flag
    [where req = "\<lparr>params = JObj [],
                   body = JObj [(''firstName'', JStr ''Eve''), (''lastName'', JStr ''Moneypenny''),
                                (''email'', JStr ''a@x.com''), (''password'', JStr ''pw123'')]\<rparr>"
       and hash = rev and newId = "\<lambda>st. ''u2''"
       and res = "\<lparr>locals = JObj [], statusCode = 200, sent = None\<rparr>"
       and st = "[(''u1'', \<lparr>firstName = ''Ada'', lastName = ''Lovelace'', email = ''a@x.com'',
                             password = ''h'', isVerified = False, verificationCode = []\<rparr>)]"
       and svc = "\<lambda>b st. Inl TypeError" and ?st0.0 = "()"]
    create_status_flag
    [where req = "\<lparr>params = JObj [], body = JObj []\<rparr>"
       and hash = rev and newId = "\<lambda>st. ''u2''" and st = "[]"
       and res = "\<lparr>locals = JObj [], statusCode = 200, sent = None\<rparr>"
       and svc = "\<lambda>b st. Inr (JObj [(''status'', JBool True), (''message'', JStr ''created'')], st)"
       and ?st0.0 = "()" and ?st0' = "()"
       and ?r0.0 = "JObj [(''status'', JBool True), (''message'', JStr ''created'')]"]
  by (auto simp add: email_taken_def)

subsection \<open>Deleting an account that does not exist\<close>

text \<open>
  Claim C9, the service being the one the specification describes. For an identifier with
  no record, \<open>deleteUser\<close> returns (it does not throw), leaves the store as it was and
  sends \<open>{data: null}\<close>; for the identifier of an account it removes the account and sends
  \<open>{data: account}\<close>, the deleted record, which is not \<open>null\<close>. The status is 200 in both
  cases.
\<close>

theorem deleteUser_not_found:
  assumes "\<not> nullish (params req)"
  shows "((\<forall>i. get (params req) ''id'' = JStr i \<longrightarrow> map_of st i = None) \<longrightarrow>
            deleteUser DeleteUser_spec req res st =
              Inr (res\<lparr>statusCode := 200, sent := Some (JObj [(''data'', JNull)])\<rparr>, st)) \<and>
         (get (params req) ''id'' = JStr i \<and> map_of st i = Some u \<longrightarrow>
            deleteUser DeleteUser_spec req res st =
              Inr (res\<lparr>statusCode := 200, sent := Some (JObj [(''data'', account_json i u)])\<rparr>,
                   filter (\<lambda>(k, a). k \<noteq> i) st) \<and>
            account_json i u \<noteq> JNull)"
  using assms
  by (cases "get (params req) ''id''")
     (auto simp add: deleteUser_unfold DeleteUser_spec_def account_json_def split: option.splits)

theorem deleteUser_not_found_witness:
  "deleteUser DeleteUser_spec
     \<lparr>params = JObj [(''id'', JStr ''u9'')], body = JUndefined\<rparr>
     \<lparr>locals = JObj [], statusCode = 200, sent = None\<rparr>
     [(''u1'', \<lparr>firstName = ''Ada'', lastName = ''Lovelace'', email = ''a@x.com'',
                password = ''h'', isVerified = False, verificationCode = []\<rparr>)]
   = Inr (\<lparr>locals = JObj [], statusCode = 200, sent = Some (JObj [(''data'', JNull)])\<rparr>,
          [(''u1'', \<lparr>firstName = ''Ada'', lastName = ''Lovelace'', email = ''a@x.com'',
                     password = ''h'', isVerified = False, verificationCode = []\<rparr>)]) \<and>
   deleteUser DeleteUser_spec
     \<lparr>params = JObj [(''id'', JStr ''u1'')], body = JUndefined\<rparr>
     \<lparr>locals = JObj [], statusCode = 200, sent = None\<rparr>
     [(''u1'', \<lparr>firstName = ''Ada'', lastName = ''Lovelace'', email = ''a@x.com'',
                password = ''h'', isVerified = False, verificationCode = []\<rparr>)]
   = Inr (\<lparr>locals = JObj [], statusCode = 200,
            sent = Some (JObj [(''data'',
              JObj [(''id'', JStr ''u1''), (''firstName'', JStr ''Ada''),
                    (''lastName'', JStr ''Lovelace''), (''email'', JStr ''a@x.com''),
                    (''isVerified'', JBool False), (''verificationCode'', JStr [])])])\<rparr>,
          [])"
  using
    deleteUser_not_found
      [where req = "\<lparr>params = JObj [(''id'', JStr ''u9'')], body = JUndefined\<rparr>"
         and res = "\<lparr>locals = JObj [], statusCode = 200, sent = None\<rparr>"
         and st = "[(''u1'', \<lparr>firstName = ''Ada'', lastName = ''Lovelace'', email = ''a@x.com'',
                               password = ''h'', isVerified = False, verificationCode = []\<rparr>)]"]
    deleteUser_not_found
      [where req = "\<lparr>params = JObj [(''id'', JStr ''u1'')], body = JUndefined\<rparr>"
         and res = "\<lparr>locals = JObj [], statusCode = 200, sent = None\<rparr>"
         and i = "''u1''"
         and u = "\<lparr>firstName = ''Ada'', lastName = ''Lovelace'', email = ''a@x.com'',
                    password = ''h'', isVerified = False, verificationCode = []\<rparr>"
         and st = "[(''u1'', \<lparr>firstName = ''Ada'', lastName = ''Lovelace'', email = ''a@x.com'',
                               password = ''h'', isVerified = False, verificationCode = []\<rparr>)]"]
  by (simp add: account_json_def)

end
